theory Spec2Isabelle
  imports Main "HOL-Library.AList"
begin

section \<open>JavaScript values used by the model\<close>

text \<open>
  Strings are modelled as HOL strings (lists of 8-bit characters); the model agrees with
  the JavaScript code on ASCII input. An absent, \<open>undefined\<close> or \<open>null\<close> string
  property is \<open>None\<close>. In JavaScript the empty string is falsy, so \<open>a || b\<close> on
  strings picks \<open>b\<close> when \<open>a\<close> is absent or empty.
\<close>

definition truthy :: "string option \<Rightarrow> bool" where
  "truthy v = (case v of None \<Rightarrow> False | Some s \<Rightarrow> s \<noteq> [])"

definition js_or :: "string option \<Rightarrow> string \<Rightarrow> string" where
  "js_or v d = (case v of None \<Rightarrow> d | Some s \<Rightarrow> if s = [] then d else s)"

text \<open>What \<open>axios.get\<close> throws.\<close>

datatype api_error = ApiError string

text \<open>
  \<open>[...new Set(xs)]\<close>: a \<open>Set\<close> keeps the first occurrence of each element, in
  insertion order. The first argument is the set built so far.
\<close>

fun setOrder :: "string set \<Rightarrow> string list \<Rightarrow> string list" where
  "setOrder seen [] = []"
| "setOrder seen (x # xs) =
     (if x \<in> seen then setOrder seen xs else x # setOrder (insert x seen) xs)"

text \<open>
  A plain object used as a dictionary of lists is an association list in insertion
  order (the order of \<open>Object.keys\<close>); the keys are taken not to be names of
  properties of \<open>Object.prototype\<close>.
  \<^verbatim>\<open>if (!dict[k]) { dict[k] = []; }  dict[k].push(v);\<close>
\<close>

definition pushTo :: "string \<Rightarrow> 'v \<Rightarrow> (string \<times> 'v list) list \<Rightarrow> (string \<times> 'v list) list" where
  "pushTo k v dict =
     AList.update k ((case map_of dict k of None \<Rightarrow> [] | Some vs \<Rightarrow> vs) @ [v]) dict"

section \<open>Regular expressions of the chat parsers\<close>

text \<open>
  The parsers use three regular expressions. They are written here as terms of a small
  regular-expression type, and matched by a backtracking matcher that explores the
  alternatives in the priority order of the JavaScript matcher: the list returned by
  \<open>rmatch\<close> holds every way to match, first choice first. A matcher state is the
  character before the current position (\<open>None\<close> at the start of the input), the
  rest of the input and the captures made so far.
\<close>

datatype cclass =
    Lit char                 \<comment> \<open>a literal character\<close>
  | Range char char          \<comment> \<open>\<open>[a-b]\<close>\<close>
  | Digit                    \<comment> \<open>\<open>\d\<close>\<close>
  | Word                     \<comment> \<open>\<open>\w\<close>\<close>
  | Space                    \<comment> \<open>\<open>\s\<close> (the ASCII white space)\<close>
  | Dot                      \<comment> \<open>\<open>.\<close>: anything but a line terminator\<close>
  | NoneOf "char list"       \<comment> \<open>\<open>[^...]\<close>\<close>

definition between :: "char \<Rightarrow> char \<Rightarrow> char \<Rightarrow> bool" where
  "between a b x = ((of_char a :: nat) \<le> of_char x \<and> (of_char x :: nat) \<le> of_char b)"

definition isSpace :: "char \<Rightarrow> bool" where
  "isSpace x = (x \<in> set [CHR '' '', CHR 0x09, CHR 0x0A, CHR 0x0B, CHR 0x0C, CHR 0x0D])"

fun in_class :: "cclass \<Rightarrow> char \<Rightarrow> bool" where
  "in_class (Lit c) x = (x = c)"
| "in_class (Range a b) x = between a b x"
| "in_class Digit x = between (CHR ''0'') (CHR ''9'') x"
| "in_class Word x =
     (between (CHR ''A'') (CHR ''Z'') x \<or> between (CHR ''a'') (CHR ''z'') x
      \<or> between (CHR ''0'') (CHR ''9'') x \<or> x = CHR ''_'')"
| "in_class Space x = isSpace x"
| "in_class Dot x = (x \<notin> set [CHR 0x0A, CHR 0x0D])"
| "in_class (NoneOf cs) x = (x \<notin> set cs)"

datatype regex =
    Atom cclass
  | Eps
  | Seq regex regex
  | Alt regex regex          \<comment> \<open>\<open>a|b\<close>, \<open>a\<close> tried first\<close>
  | Star regex               \<comment> \<open>greedy \<open>a*\<close>\<close>
  | LazyStar regex           \<comment> \<open>lazy \<open>a*?\<close>\<close>
  | Group nat regex          \<comment> \<open>capturing group number \<open>k\<close>\<close>
  | Bol                      \<comment> \<open>\<open>^\<close> (no \<open>m\<close> flag)\<close>
  | Eol                      \<comment> \<open>\<open>$\<close> (no \<open>m\<close> flag)\<close>
  | WordBoundary             \<comment> \<open>\<open>\b\<close>\<close>

datatype mstate =
  MState (before: "char option") (remaining: string) (captures: "(nat \<times> string) list")

text \<open>
  Repetition. Another round is tried only from a state that consumed input, as the
  JavaScript matcher rejects an empty round. The bound \<open>n\<close> is given as one more than
  the length of the rest of the input, which no sequence of consuming rounds reaches.
  A greedy star prefers another round, a lazy star prefers to stop.
\<close>

primrec greedy :: "(mstate \<Rightarrow> mstate list) \<Rightarrow> nat \<Rightarrow> mstate \<Rightarrow> mstate list" where
  "greedy f 0 st = [st]"
| "greedy f (Suc n) st =
     concat (map (\<lambda>st'. if length (remaining st') < length (remaining st)
                         then greedy f n st' else [])
                 (f st)) @ [st]"

primrec lazy :: "(mstate \<Rightarrow> mstate list) \<Rightarrow> nat \<Rightarrow> mstate \<Rightarrow> mstate list" where
  "lazy f 0 st = [st]"
| "lazy f (Suc n) st =
     st # concat (map (\<lambda>st'. if length (remaining st') < length (remaining st)
                              then lazy f n st' else [])
                      (f st))"

definition isWordChar :: "char option \<Rightarrow> bool" where
  "isWordChar c = (case c of None \<Rightarrow> False | Some x \<Rightarrow> in_class Word x)"

primrec rmatch :: "regex \<Rightarrow> mstate \<Rightarrow> mstate list" where
  "rmatch (Atom c) st =
     (case remaining st of
        [] \<Rightarrow> []
      | x # xs \<Rightarrow> if in_class c x then [MState (Some x) xs (captures st)] else [])"
| "rmatch Eps st = [st]"
| "rmatch (Seq a b) st = concat (map (rmatch b) (rmatch a st))"
| "rmatch (Alt a b) st = rmatch a st @ rmatch b st"
| "rmatch (Star a) st = greedy (rmatch a) (Suc (length (remaining st))) st"
| "rmatch (LazyStar a) st = lazy (rmatch a) (Suc (length (remaining st))) st"
| "rmatch (Group k a) st =
     map (\<lambda>st'. MState (before st') (remaining st')
                  (AList.update k
                     (take (length (remaining st) - length (remaining st')) (remaining st))
                     (captures st')))
         (rmatch a st)"
| "rmatch Bol st = (if before st = None then [st] else [])"
| "rmatch Eol st = (if remaining st = [] then [st] else [])"
| "rmatch WordBoundary st =
     (if isWordChar (before st)
          \<noteq> isWordChar (case remaining st of [] \<Rightarrow> None | x # xs \<Rightarrow> Some x)
      then [st] else [])"

text \<open>
  \<open>str.match(re)\<close> for a pattern without the \<open>g\<close> flag: the first match, trying
  the start positions from left to right; the result is the list of captures.
\<close>

fun js_match :: "regex \<Rightarrow> char option \<Rightarrow> string \<Rightarrow> (nat \<times> string) list option" where
  "js_match r p [] =
     (case rmatch r (MState p [] []) of [] \<Rightarrow> None | st # _ \<Rightarrow> Some (captures st))"
| "js_match r p (x # xs) =
     (case rmatch r (MState p (x # xs) []) of
        [] \<Rightarrow> js_match r (Some x) xs
      | st # _ \<Rightarrow> Some (captures st))"

definition grp :: "(nat \<times> string) list \<Rightarrow> nat \<Rightarrow> string" where
  "grp caps k = (case map_of caps k of None \<Rightarrow> [] | Some s \<Rightarrow> s)"

text \<open>Abbreviations for writing the patterns.\<close>

definition Plus :: "regex \<Rightarrow> regex" where
  "Plus r = Seq r (Star r)"

definition LazyPlus :: "regex \<Rightarrow> regex" where
  "LazyPlus r = Seq r (LazyStar r)"

definition Opt :: "regex \<Rightarrow> regex" where
  "Opt r = Alt r Eps"

definition Seqs :: "regex list \<Rightarrow> regex" where
  "Seqs rs = foldr Seq rs Eps"

definition Ch :: "char \<Rightarrow> regex" where
  "Ch c = Atom (Lit c)"

definition Str :: "string \<Rightarrow> regex" where
  "Str s = Seqs (map Ch s)"

definition dg :: regex where
  "dg = Atom Digit"

definition dg12 :: regex where    \<comment> \<open>\<open>\d{1,2}\<close>\<close>
  "dg12 = Seq dg (Opt dg)"

definition dg4 :: regex where     \<comment> \<open>\<open>\d{4}\<close>\<close>
  "dg4 = Seqs [dg, dg, dg, dg]"

definition sp :: regex where
  "sp = Atom Space"

definition ampm :: regex where    \<comment> \<open>\<open>(?:AM|PM|am|pm)\<close>\<close>
  "ampm = Alt (Str ''AM'') (Alt (Str ''PM'') (Alt (Str ''am'') (Str ''pm'')))"

text \<open>
  \<^verbatim>\<open>/^([^,]+),\s+(\w+\s+\d{1,2}(?:,\s+\d{4})?,\s+\d{1,2}:\d{2}\s*(?:AM|PM|am|pm)?(?:,\s*Edited)?)\s*$/\<close>
\<close>

definition timePattern :: regex where
  "timePattern =
     Seqs [Bol,
           Group 1 (Plus (Atom (NoneOf '',''))),
           Ch (CHR '',''), Plus sp,
           Group 2 (Seqs [Plus (Atom Word), Plus sp, dg12,
                          Opt (Seqs [Ch (CHR '',''), Plus sp, dg4]),
                          Ch (CHR '',''), Plus sp, dg12, Ch (CHR '':''), dg, dg, Star sp,
                          Opt ampm,
                          Opt (Seqs [Ch (CHR '',''), Star sp, Str ''Edited''])]),
           Star sp, Eol]"

text \<open>
  \<^verbatim>\<open>/^(\d{1,2}:\d{2}\s*(?:AM|PM|am|pm)?|\w+\s+\d{1,2},\s+\d{4},?\s+\d{1,2}:\d{2}\s*(?:AM|PM|am|pm)?)\s+(.+?):\s*(.+)$/\<close>
\<close>

definition legacyPattern :: regex where
  "legacyPattern =
     Seqs [Bol,
           Group 1 (Alt (Seqs [dg12, Ch (CHR '':''), dg, dg, Star sp, Opt ampm])
                        (Seqs [Plus (Atom Word), Plus sp, dg12, Ch (CHR '',''), Plus sp, dg4,
                               Opt (Ch (CHR '','')), Plus sp, dg12, Ch (CHR '':''), dg, dg,
                               Star sp, Opt ampm])),
           Plus sp,
           Group 2 (LazyPlus (Atom Dot)),
           Ch (CHR '':''), Star sp,
           Group 3 (Plus (Atom Dot)),
           Eol]"

text \<open>\<^verbatim>\<open>/\b([A-Z]+-\d+)\b/g\<close>\<close>

definition ticketRegex :: regex where
  "ticketRegex =
     Seq WordBoundary
       (Seq (Group 1 (Seq (Plus (Atom (Range (CHR ''A'') (CHR ''Z''))))
                          (Seq (Ch (CHR ''-'')) (Plus dg))))
            WordBoundary)"

section \<open>Ticket identifiers in a text\<close>

text \<open>
  \<^verbatim>\<open>
  const ticketRegex = /\b([A-Z]+-\d+)\b/g;
  while ((match = ticketRegex.exec(text)) !== null) { ticketIds.push(match[1]); }
  \<close>
  Each call of \<open>exec\<close> looks for the next match from the end of the previous one.
  The arguments are the character before the current position and the rest of the
  text. Every match of the pattern consumes at least two characters, which is why the
  loop ends.
\<close>

function extractTicketIds :: "char option \<Rightarrow> string \<Rightarrow> string list" where
  "extractTicketIds p s =
     (case rmatch ticketRegex (MState p s []) of
        st # _ \<Rightarrow> grp (captures st) 1 # extractTicketIds (before st) (remaining st)
      | [] \<Rightarrow> (case s of [] \<Rightarrow> [] | x # xs \<Rightarrow> extractTicketIds (Some x) xs))"
  by pat_completeness auto

lemma greedy_mono:
  assumes "\<And>a b. b \<in> set (f a) \<Longrightarrow> length (remaining b) \<le> length (remaining a)"
  shows "st' \<in> set (greedy f n st) \<Longrightarrow> length (remaining st') \<le> length (remaining st)"
proof (induction n arbitrary: st)
  case 0
  then show ?case by simp
next
  case (Suc n)
  show ?case
  proof (cases "st' = st")
    case True
    then show ?thesis by simp
  next
    case False
    with Suc.prems obtain m where m: "m \<in> set (f st)"
      "st' \<in> set (if length (remaining m) < length (remaining st) then greedy f n m else [])"
      by auto
    show ?thesis
    proof (cases "length (remaining m) < length (remaining st)")
      case True
      with m(2) Suc.IH [of m] show ?thesis by simp
    next
      case False
      with m(2) show ?thesis by simp
    qed
  qed
qed

lemma lazy_mono:
  assumes "\<And>a b. b \<in> set (f a) \<Longrightarrow> length (remaining b) \<le> length (remaining a)"
  shows "st' \<in> set (lazy f n st) \<Longrightarrow> length (remaining st') \<le> length (remaining st)"
proof (induction n arbitrary: st)
  case 0
  then show ?case by simp
next
  case (Suc n)
  show ?case
  proof (cases "st' = st")
    case True
    then show ?thesis by simp
  next
    case False
    with Suc.prems obtain m where m: "m \<in> set (f st)"
      "st' \<in> set (if length (remaining m) < length (remaining st) then lazy f n m else [])"
      by auto
    show ?thesis
    proof (cases "length (remaining m) < length (remaining st)")
      case True
      with m(2) Suc.IH [of m] show ?thesis by simp
    next
      case False
      with m(2) show ?thesis by simp
    qed
  qed
qed

lemma rmatch_Seq_iff:
  "st' \<in> set (rmatch (Seq a b) st) \<longleftrightarrow> (\<exists>m \<in> set (rmatch a st). st' \<in> set (rmatch b m))"
  by simp

lemma rmatch_Atom_consumes:
  "m \<in> set (rmatch (Atom c) st) \<Longrightarrow> length (remaining m) < length (remaining st)"
  by (cases "remaining st") (auto split: if_splits)

lemma rmatch_Group_remaining:
  "m \<in> set (rmatch (Group k a) st) \<Longrightarrow> \<exists>b \<in> set (rmatch a st). remaining m = remaining b"
  by auto

lemma rmatch_mono:
  "st' \<in> set (rmatch r st) \<Longrightarrow> length (remaining st') \<le> length (remaining st)"
proof (induction r arbitrary: st st')
  case (Atom c)
  from rmatch_Atom_consumes [OF Atom] show ?case by simp
next
  case (Seq a b)
  from Seq.prems obtain m where "m \<in> set (rmatch a st)" "st' \<in> set (rmatch b m)"
    unfolding rmatch_Seq_iff by blast
  with Seq.IH(1) [of m st] Seq.IH(2) [of st' m] show ?case by simp
next
  case (Alt a b)
  then show ?case by auto
next
  case (Star a)
  then show ?case
    using greedy_mono [of "rmatch a" st' "Suc (length (remaining st))" st] by simp
next
  case (LazyStar a)
  then show ?case
    using lazy_mono [of "rmatch a" st' "Suc (length (remaining st))" st] by simp
next
  case (Group k a)
  from rmatch_Group_remaining [OF Group.prems]
  obtain b where "b \<in> set (rmatch a st)" "remaining st' = remaining b"
    by blast
  with Group.IH [of b st] show ?case by simp
qed (simp_all split: if_splits)

lemma rmatch_Seq_Atom_consumes:
  assumes "st' \<in> set (rmatch (Seq (Atom c) r) st)"
  shows "length (remaining st') < length (remaining st)"
proof -
  from assms obtain m where m: "m \<in> set (rmatch (Atom c) st)" "st' \<in> set (rmatch r m)"
    unfolding rmatch_Seq_iff by blast
  from rmatch_Atom_consumes [OF m(1)] rmatch_mono [OF m(2)] show ?thesis by simp
qed

lemma ticketRegex_consumes:
  assumes "st' \<in> set (rmatch ticketRegex st)"
  shows "length (remaining st') < length (remaining st)"
proof -
  let ?U = "Atom (Range (CHR ''A'') (CHR ''Z''))"
  let ?body = "Seq (Plus ?U) (Seq (Ch (CHR ''-'')) (Plus dg))"
  from assms obtain m1 where
    m1: "m1 \<in> set (rmatch WordBoundary st)" and
    r1: "st' \<in> set (rmatch (Seq (Group 1 ?body) WordBoundary) m1)"
    unfolding ticketRegex_def rmatch_Seq_iff by blast
  from r1 obtain m2 where
    m2: "m2 \<in> set (rmatch (Group 1 ?body) m1)" and
    m3: "st' \<in> set (rmatch WordBoundary m2)"
    unfolding rmatch_Seq_iff by blast
  from m1 have e1: "m1 = st"
    by (simp split: if_splits)
  from m3 have e3: "st' = m2"
    by (simp split: if_splits)
  from rmatch_Group_remaining [OF m2]
  obtain b where b: "b \<in> set (rmatch ?body m1)" "remaining m2 = remaining b"
    by blast
  from b(1) obtain c where c: "c \<in> set (rmatch (Plus ?U) m1)"
      "b \<in> set (rmatch (Seq (Ch (CHR ''-'')) (Plus dg)) c)"
    unfolding rmatch_Seq_iff by blast
  from c(1) have "length (remaining c) < length (remaining m1)"
    unfolding Plus_def by (rule rmatch_Seq_Atom_consumes)
  with rmatch_mono [OF c(2)] b(2) e1 e3 show ?thesis by simp
qed

termination extractTicketIds
proof (relation "measure (\<lambda>(p, s). length s)")
  show "wf (measure (\<lambda>(p, s). length s))"
    by simp
next
  fix p :: "char option" and s :: string and st :: mstate and sts :: "mstate list"
  assume "rmatch ticketRegex (MState p s []) = st # sts"
  then have "st \<in> set (rmatch ticketRegex (MState p s []))"
    by simp
  from ticketRegex_consumes [OF this]
  show "((before st, remaining st), (p, s)) \<in> measure (\<lambda>(p, s). length s)"
    by simp
next
  fix p :: "char option" and s :: string and x :: char and xs :: string
  assume "s = x # xs"
  then show "((Some x, xs), (p, s)) \<in> measure (\<lambda>(p, s). length s)"
    by simp
qed

declare extractTicketIds.simps [simp del]

section \<open>Chat messages and datasets\<close>

text \<open>
  A parsed chat message. The API variant sets \<open>name\<close>, \<open>createTime\<close> and
  \<open>thread\<close>, the export variant sets \<open>timestamp\<close>; a property that a variant does
  not set, or sets to \<open>null\<close>, is \<open>None\<close>.
\<close>

record chat_message =
  m_name :: "string option"
  m_sender :: string
  m_text :: string
  m_timestamp :: "string option"
  m_createTime :: "string option"
  m_thread :: "string option"
  m_ticketIds :: "string list"
  m_source :: string

record mention =
  mn_sender :: string
  mn_text :: string
  mn_createTime :: "string option"
  mn_timestamp :: "string option"

record chat_dataset =
  cd_spaceId :: string
  cd_messages :: "chat_message list"
  cd_threads :: "(string \<times> chat_message list) list"
  cd_participants :: "string list"
  cd_ticketMentions :: "(string \<times> mention list) list"
  cd_totalMessages :: nat
  cd_totalThreads :: nat

definition mentionOf :: "chat_message \<Rightarrow> mention" where
  "mentionOf msg =
     \<lparr> mn_sender = m_sender msg, mn_text = m_text msg,
       mn_createTime = m_createTime msg, mn_timestamp = m_timestamp msg \<rparr>"

text \<open>
  \<^verbatim>\<open>
  const ticketMentions = {};
  messages.forEach(function(msg) {
    msg.ticketIds.forEach(function(ticketId) {
      if (!ticketMentions[ticketId]) { ticketMentions[ticketId] = []; }
      ticketMentions[ticketId].push({ sender: msg.sender, text: msg.text, ... });
    });
  });
  \<close>
\<close>

definition addMentions ::
  "(string \<times> mention list) list \<Rightarrow> chat_message \<Rightarrow> (string \<times> mention list) list" where
  "addMentions tm msg = foldl (\<lambda>tm ticketId. pushTo ticketId (mentionOf msg) tm) tm (m_ticketIds msg)"

definition ticketMentionsOf :: "chat_message list \<Rightarrow> (string \<times> mention list) list" where
  "ticketMentionsOf messages = foldl addMentions [] messages"

section \<open>Chat parser, export-text variant (parseGoogleChatExport)\<close>

text \<open>\<open>chatText.split('\n')\<close> and \<open>line.trim()\<close> (ASCII white space).\<close>

fun splitLines :: "string \<Rightarrow> string list" where
  "splitLines [] = [[]]"
| "splitLines (c # cs) =
     (if c = CHR 0x0A then [] # splitLines cs
      else (case splitLines cs of [] \<Rightarrow> [[c]] | l # ls \<Rightarrow> (c # l) # ls))"

definition trim :: "string \<Rightarrow> string" where
  "trim s = rev (dropWhile isSpace (rev (dropWhile isSpace s)))"

text \<open>\<open>s.replace(/, Edited$/, '')\<close>: a final \<open>", Edited"\<close> is removed.\<close>

definition stripEdited :: "string \<Rightarrow> string" where
  "stripEdited s =
     (if length s \<ge> 8 \<and> drop (length s - 8) s = '', Edited'' then take (length s - 8) s else s)"

text \<open>
  The state of the loop over the lines: the list \<open>messages\<close> and
  \<open>currentMessage\<close> (\<open>None\<close> is \<open>null\<close>).
\<close>

type_synonym parse_state = "chat_message list \<times> chat_message option"

definition exportMessage :: "string \<Rightarrow> string \<Rightarrow> string \<Rightarrow> string list \<Rightarrow> chat_message" where
  "exportMessage sender txt timestamp ticketIds =
     \<lparr> m_name = None, m_sender = sender, m_text = txt, m_timestamp = Some timestamp,
       m_createTime = None, m_thread = None, m_ticketIds = ticketIds,
       m_source = ''google_chat_export'' \<rparr>"

text \<open>
  The continuation of the open message:
  \<^verbatim>\<open>
  if (currentMessage.text) { currentMessage.text += '\n' + line; }
  else { currentMessage.text = line; }
  while ((ticketMatch = ticketRegex.exec(line)) !== null) {
    if (!currentMessage.ticketIds.includes(ticketMatch[1])) {
      currentMessage.ticketIds.push(ticketMatch[1]);
    }
  }
  \<close>
\<close>

definition continueMessage :: "chat_message \<Rightarrow> string \<Rightarrow> chat_message" where
  "continueMessage msg line =
     msg\<lparr> m_text := (if m_text msg \<noteq> [] then m_text msg @ [CHR 0x0A] @ line else line),
          m_ticketIds :=
            foldl (\<lambda>ids t. if t \<in> set ids then ids else ids @ [t])
              (m_ticketIds msg) (extractTicketIds None line) \<rparr>"

text \<open>
  One turn of \<open>lines.forEach\<close>. The time pattern (header A) is tried first; only a
  line that it does not match is tried against the legacy pattern (header B).
\<close>

definition parseLine :: "parse_state \<Rightarrow> string \<Rightarrow> parse_state" where
  "parseLine st rawLine =
     (let line = trim rawLine; messages = fst st; currentMessage = snd st
      in if line = [] then st
         else
           (case js_match timePattern None line of
              Some caps \<Rightarrow>
                ((case currentMessage of
                    None \<Rightarrow> messages
                  | Some cur \<Rightarrow> if m_text cur \<noteq> [] then messages @ [cur] else messages),
                 Some (exportMessage (trim (grp caps 1)) [] (trim (stripEdited (grp caps 2))) []))
            | None \<Rightarrow>
                (case js_match legacyPattern None line of
                   Some caps \<Rightarrow>
                     ((case currentMessage of
                         None \<Rightarrow> messages
                       | Some cur \<Rightarrow> messages @ [cur]),
                      Some (exportMessage (trim (grp caps 2)) (trim (grp caps 3)) (grp caps 1)
                              (extractTicketIds None (trim (grp caps 3)))))
                 | None \<Rightarrow>
                     (case currentMessage of
                        None \<Rightarrow> st
                      | Some cur \<Rightarrow> (messages, Some (continueMessage cur line))))))"

definition parseLines :: "string list \<Rightarrow> parse_state" where
  "parseLines ls = foldl parseLine ([], None) ls"

text \<open>\<^verbatim>\<open>if (currentMessage) { messages.push(currentMessage); }\<close>\<close>

definition flush :: "parse_state \<Rightarrow> chat_message list" where
  "flush st = (case snd st of None \<Rightarrow> fst st | Some cur \<Rightarrow> fst st @ [cur])"

definition parseGoogleChatExport :: "string \<Rightarrow> chat_dataset" where
  "parseGoogleChatExport chatText =
     (let messages = flush (parseLines (splitLines chatText))
      in \<lparr> cd_spaceId = ''exported'',
           cd_messages = messages,
           cd_threads = [(''main_thread'', messages)],
           cd_participants = setOrder {} (map m_sender messages),
           cd_ticketMentions = ticketMentionsOf messages,
           cd_totalMessages = length messages,
           cd_totalThreads = 1 \<rparr>)"

section \<open>Chat parser, API variant (fetchGoogleChatMessages)\<close>

record raw_chat_message =
  rm_name :: "string option"
  rm_senderDisplayName :: "string option"   \<comment> \<open>\<open>sender?.displayName\<close>\<close>
  rm_senderName :: "string option"          \<comment> \<open>\<open>sender?.name\<close>\<close>
  rm_text :: "string option"
  rm_createTime :: "string option"
  rm_threadName :: "string option"          \<comment> \<open>\<open>thread?.name\<close>\<close>

record chat_page =
  p_messages :: "raw_chat_message list option"
  p_nextPageToken :: "string option"

text \<open>
  The result of \<open>parseGoogleChatUrl\<close>, which reads the URL with the platform's URL
  parser; the fetch starts from this record (\<open>None\<close> when the URL is refused).
\<close>

record parsed_chat_url =
  pu_spaceId :: string
  pu_apiKey :: string
  pu_token :: "string option"
  pu_baseUrl :: string

text \<open>
  The chat service: the answer to the \<open>n\<close>-th request (counting from 0) for a URL.
  \<open>Inl\<close> is a request that throws, \<open>Inr None\<close> a response without a body.
\<close>

type_synonym chat_api = "nat \<Rightarrow> string \<Rightarrow> api_error + chat_page option"

definition maxPages :: nat where
  "maxPages = 10"

definition requestUrl :: "parsed_chat_url \<Rightarrow> string option \<Rightarrow> string" where
  "requestUrl parsed pageToken =
     pu_baseUrl parsed @ ''?key='' @ pu_apiKey parsed
       @ (if truthy (pu_token parsed) then ''&token='' @ js_or (pu_token parsed) [] else [])
       @ (if truthy pageToken then ''&pageToken='' @ js_or pageToken [] else [])
       @ ''&pageSize=100''"

text \<open>
  \<^verbatim>\<open>
  do {
    ... const response = await axios.get(url);
    if (response.data.messages) { messages.push(...response.data.messages); }
    pageToken = response.data.nextPageToken;
    pageCount++;
    if (pageCount >= maxPages) { break; }
  } while (pageToken);
  \<close>
  One call of \<open>fetchPages\<close> is one turn of the loop. Besides the messages it returns
  the log of the requests made, in order.
\<close>

function fetchPages ::
  "chat_api \<Rightarrow> parsed_chat_url \<Rightarrow> string list \<Rightarrow> raw_chat_message list \<Rightarrow> string option \<Rightarrow> nat
     \<Rightarrow> string list \<times> (api_error + raw_chat_message list)" where
  "fetchPages api parsed log messages pageToken pageCount =
     (let url = requestUrl parsed pageToken; log' = log @ [url]
      in case api pageCount url of
           Inl e \<Rightarrow> (log', Inl e)
         | Inr None \<Rightarrow> (log', Inl (ApiError ''TypeError''))
         | Inr (Some response) \<Rightarrow>
             (let messages' = messages @ (case p_messages response of None \<Rightarrow> [] | Some ms \<Rightarrow> ms);
                  pageToken' = p_nextPageToken response;
                  pageCount' = pageCount + 1
              in if pageCount' \<ge> maxPages then (log', Inr messages')
                 else if truthy pageToken'
                      then fetchPages api parsed log' messages' pageToken' pageCount'
                      else (log', Inr messages')))"
  by pat_completeness auto

termination fetchPages
  by (relation "measure (\<lambda>(api, parsed, log, messages, pageToken, pageCount). maxPages - pageCount)")
     auto

declare fetchPages.simps [simp del]

definition js_or_null :: "string option \<Rightarrow> string option" where
  "js_or_null v = (if truthy v then v else None)"

definition parseChatMessage :: "raw_chat_message \<Rightarrow> chat_message" where
  "parseChatMessage msg =
     (let sender = js_or (rm_senderDisplayName msg) (js_or (rm_senderName msg) ''Unknown'');
          txt = js_or (rm_text msg) []
      in \<lparr> m_name = rm_name msg,
           m_sender = sender,
           m_text = txt,
           m_timestamp = None,
           m_createTime = js_or_null (rm_createTime msg),
           m_thread = js_or_null (rm_threadName msg),
           m_ticketIds = extractTicketIds None txt,
           m_source = ''google_chat'' \<rparr>)"

definition threadsOf :: "chat_message list \<Rightarrow> (string \<times> chat_message list) list" where
  "threadsOf msgs = foldl (\<lambda>threads msg. pushTo (js_or (m_thread msg) ''no_thread'') msg threads) [] msgs"

definition fetchGoogleChatMessages :: "chat_api \<Rightarrow> parsed_chat_url option \<Rightarrow> chat_dataset option" where
  "fetchGoogleChatMessages api parsedUrl =
     (case parsedUrl of
        None \<Rightarrow> None
      | Some parsed \<Rightarrow>
          (case snd (fetchPages api parsed [] [] None 0) of
             Inl e \<Rightarrow> None
           | Inr messages \<Rightarrow>
               (let parsedMessages = map parseChatMessage messages;
                    threads = threadsOf parsedMessages
                in Some \<lparr> cd_spaceId = pu_spaceId parsed,
                          cd_messages = parsedMessages,
                          cd_threads = threads,
                          cd_participants = setOrder {} (map m_sender parsedMessages),
                          cd_ticketMentions = ticketMentionsOf parsedMessages,
                          cd_totalMessages = length parsedMessages,
                          cd_totalThreads = length threads \<rparr>)))"

section \<open>Correlation engine (correlateChatsWithTickets)\<close>

record correlations =
  ticketToChats :: "(string \<times> mention list) list"
  chatToTickets :: "(string \<times> string list) list"
  unlinkedChats :: "chat_message list"

text \<open>
  \<^verbatim>\<open>const msgId = msg.name || msg.timestamp || Math.random().toString();\<close>
  The random token is an argument.
\<close>

definition msgKey :: "string \<Rightarrow> chat_message \<Rightarrow> string" where
  "msgKey rnd msg = js_or (m_name msg) (js_or (m_timestamp msg) rnd)"

text \<open>
  One turn of \<open>chatData.messages.forEach\<close>, for the message at position \<open>i\<close>;
  \<open>rand i\<close> is the token that \<open>Math.random().toString()\<close> gives for it. The value
  stored under a key is a list, which is truthy, so \<open>!chatToTickets[msgId]\<close> holds
  exactly when the key has no entry.
\<close>

definition correlateStep :: "(nat \<Rightarrow> string) \<Rightarrow> correlations \<Rightarrow> nat \<times> chat_message \<Rightarrow> correlations" where
  "correlateStep rand c im =
     (let msg = snd im
      in if length (m_ticketIds msg) > 0 then
           (let msgId = msgKey (rand (fst im)) msg
            in if map_of (chatToTickets c) msgId = None
               then c\<lparr>chatToTickets := chatToTickets c @ [(msgId, m_ticketIds msg)]\<rparr>
               else c)
         else c\<lparr>unlinkedChats := unlinkedChats c @ [msg]\<rparr>)"

definition correlateChatsWithTickets ::
  "(nat \<Rightarrow> string) \<Rightarrow> 'g \<Rightarrow> chat_dataset option \<Rightarrow> correlations option" where
  "correlateChatsWithTickets rand ticketData chatData =
     (case chatData of
        None \<Rightarrow> None
      | Some cd \<Rightarrow>
          Some (foldl (correlateStep rand)
                  \<lparr> ticketToChats = cd_ticketMentions cd, chatToTickets = [], unlinkedChats = [] \<rparr>
                  (enumerate 0 (cd_messages cd))))"

section \<open>History store (addToHistory, both server variants)\<close>

text \<open>
  \<^verbatim>\<open>const MAX_HISTORY = 50;\<close> in youtrack.js and in the ADO server.
\<close>

definition MAX_HISTORY :: nat where
  "MAX_HISTORY = 50"

text \<open>
  The fields of a history item that are computed by \<open>addToHistory\<close>. The crawled
  graph and the analysis are stored in the item as they are; they are the type
  parameters \<open>'d\<close> and \<open>'a\<close>. The YouTrack variant names the second field
  \<open>issueId\<close>, the ADO variant \<open>ticketId\<close>; the ADO variant has no
  \<open>hasChatData\<close> field (\<open>None\<close>).
\<close>

record ('d, 'a) historyItem =
  h_id :: string
  h_issueId :: string
  h_url :: string
  h_timestamp :: string
  h_projectName :: string
  h_status :: string
  h_totalTickets :: nat
  h_totalComments :: nat
  h_hasChatData :: "bool option"
  h_data :: 'd
  h_analysis :: 'a

text \<open>
  What \<open>addToHistory\<close> reads from its arguments: the clock
  (\<open>Date.now().toString()\<close> and \<open>new Date().toISOString()\<close>),
  \<open>analysis.projectOverview?.name\<close>, \<open>analysis.projectOverview?.status\<close>,
  \<open>data.parent?.title\<close>, \<open>data.parent?.state\<close>, \<open>data.children?.length\<close>,
  \<open>data.stats?.totalComments\<close> and whether \<open>data.chatMessages.messages\<close> is a
  non-empty list.
\<close>

record ('d, 'a) historyInput =
  in_now :: string
  in_isoNow :: string
  in_issueId :: string
  in_url :: string
  in_overviewName :: "string option"
  in_overviewStatus :: "string option"
  in_parentTitle :: "string option"
  in_parentState :: "string option"
  in_childrenLength :: "nat option"
  in_statsTotalComments :: "nat option"
  in_chatMessageCount :: "nat option"
  in_data :: 'd
  in_analysis :: 'a

definition nat_or :: "nat option \<Rightarrow> nat \<Rightarrow> nat" where
  "nat_or v d = (case v of None \<Rightarrow> d | Some n \<Rightarrow> if n = 0 then d else n)"

definition historyItemYouTrack :: "('d, 'a) historyInput \<Rightarrow> ('d, 'a) historyItem" where
  "historyItemYouTrack i =
     \<lparr> h_id = in_now i,
       h_issueId = in_issueId i,
       h_url = in_url i,
       h_timestamp = in_isoNow i,
       h_projectName =
         js_or (in_overviewName i) (js_or (in_parentTitle i) (''Issue '' @ in_issueId i)),
       h_status = js_or (in_overviewStatus i) (js_or (in_parentState i) ''N/A''),
       h_totalTickets = nat_or (in_childrenLength i) 0 + 1,
       h_totalComments = nat_or (in_statsTotalComments i) 0,
       h_hasChatData = Some (case in_chatMessageCount i of None \<Rightarrow> False | Some n \<Rightarrow> n > 0),
       h_data = in_data i,
       h_analysis = in_analysis i \<rparr>"

definition historyItemAdo :: "('d, 'a) historyInput \<Rightarrow> ('d, 'a) historyItem" where
  "historyItemAdo i =
     \<lparr> h_id = in_now i,
       h_issueId = in_issueId i,
       h_url = in_url i,
       h_timestamp = in_isoNow i,
       h_projectName = js_or (in_overviewName i) (''Ticket '' @ in_issueId i),
       h_status = js_or (in_overviewStatus i) ''N/A'',
       h_totalTickets = nat_or (in_childrenLength i) 0 + 1,
       h_totalComments = nat_or (in_statsTotalComments i) 0,
       h_hasChatData = None,
       h_data = in_data i,
       h_analysis = in_analysis i \<rparr>"

text \<open>
  The list operations of \<open>addToHistory\<close>, the same in both variants:
  \<^verbatim>\<open>
  analysisHistory.unshift(historyItem);
  if (analysisHistory.length > MAX_HISTORY) {
    analysisHistory.pop();
  }
  \<close>
  \<open>unshift\<close> puts the item in front, \<open>pop\<close> removes the last element, once.
\<close>

definition unshift_pop :: "'x \<Rightarrow> 'x list \<Rightarrow> 'x list" where
  "unshift_pop item analysisHistory =
     (let h = item # analysisHistory
      in if length h > MAX_HISTORY then butlast h else h)"

text \<open>
  The module state is the list \<open>analysisHistory\<close>; \<open>addToHistory\<close> returns the new
  item's id together with the new list (which is also what it writes to the file).
\<close>

definition addToHistory ::
  "('d, 'a) historyItem list \<Rightarrow> ('d, 'a) historyInput \<Rightarrow> string \<times> ('d, 'a) historyItem list" where
  "addToHistory analysisHistory i =
     (let historyItem = historyItemYouTrack i
      in (h_id historyItem, unshift_pop historyItem analysisHistory))"

definition addToHistoryAdo ::
  "('d, 'a) historyItem list \<Rightarrow> ('d, 'a) historyInput \<Rightarrow> string \<times> ('d, 'a) historyItem list" where
  "addToHistoryAdo analysisHistory i =
     (let historyItem = historyItemAdo i
      in (h_id historyItem, unshift_pop historyItem analysisHistory))"

text \<open>Running a sequence of insertions, oldest request first.\<close>

fun addAll :: "('d, 'a) historyItem list \<Rightarrow> ('d, 'a) historyInput list \<Rightarrow> ('d, 'a) historyItem list" where
  "addAll h [] = h"
| "addAll h (i # is) = addAll (snd (addToHistory h i)) is"

fun addAllAdo :: "('d, 'a) historyItem list \<Rightarrow> ('d, 'a) historyInput list \<Rightarrow> ('d, 'a) historyItem list" where
  "addAllAdo h [] = h"
| "addAllAdo h (i # is) = addAllAdo (snd (addToHistoryAdo h i)) is"

text \<open>
  A run of 51 insertions: the list has 50 entries, the newest is first and the very
  first insertion is gone.
\<close>

definition sampleInput :: "nat \<Rightarrow> (unit, unit) historyInput" where
  "sampleInput n =
     \<lparr> in_now = replicate n (CHR ''x''), in_isoNow = [], in_issueId = ''A-1'', in_url = [],
       in_overviewName = None, in_overviewStatus = None, in_parentTitle = None,
       in_parentState = None, in_childrenLength = None, in_statsTotalComments = None,
       in_chatMessageCount = None, in_data = (), in_analysis = () \<rparr>"

section \<open>YouTrack: fetching issues and comments\<close>

text \<open>
  The tracker is reached through \<open>axios.get\<close>, which either throws (a transport or
  API error) or returns a response whose \<open>data\<close> is the payload (possibly
  \<open>null\<close>). A tracker is modelled by the two requests the crawler makes, as
  functions of the base URL and the issue id of the request.
\<close>

record raw_comment =
  rc_id :: string
  rc_text :: "string option"
  rc_author :: "(string option \<times> string option) option"  \<comment> \<open>author(fullName, login)\<close>
  rc_created :: "nat option"
  rc_updated :: "nat option"
  rc_deleted :: bool

record comment =
  c_id :: string
  c_text :: string
  c_author :: "string option"
  c_createdDate :: "nat option"
  c_modifiedDate :: "nat option"

record raw_link_issue =
  li_idReadable :: string
  li_id :: string
  li_summary :: string
  li_stateName :: "string option"          \<comment> \<open>\<open>state?.name\<close>\<close>
  li_assigneeFullName :: "string option"   \<comment> \<open>\<open>assignee?.fullName\<close>\<close>

record raw_link =
  l_typeName :: "string option"            \<comment> \<open>\<open>linkType?.name\<close>\<close>
  l_sourceToTarget :: "string option"      \<comment> \<open>\<open>linkType?.sourceToTarget\<close>\<close>
  l_targetToSource :: "string option"      \<comment> \<open>\<open>linkType?.targetToSource\<close>\<close>
  l_direction :: string
  l_issues :: "raw_link_issue list"        \<comment> \<open>\<open>link.issues || []\<close>\<close>

text \<open>
  The raw issue payload. The fields \<open>i_cfType\<close>, \<open>i_cfState\<close> and
  \<open>i_cfAssignee\<close> stand for what the scan of \<open>issue.customFields\<close> leaves in
  \<open>customFields['Type']\<close>, \<open>stateFromCustomFields || customFields['State']\<close> and
  \<open>assigneeFromCustomFields || customFields['Assignee']\<close>; the scan itself, and the
  ticket fields that are copied from the payload and read by no operation of the crawl
  (description, priority, e-mail addresses, tags, dates, estimation), are left out.
\<close>

record raw_issue =
  i_idReadable :: string
  i_id :: string
  i_summary :: string
  i_typeName :: "string option"            \<comment> \<open>\<open>type?.name\<close>\<close>
  i_stateName :: "string option"           \<comment> \<open>\<open>state?.name\<close>\<close>
  i_assigneeFullName :: "string option"    \<comment> \<open>\<open>assignee?.fullName\<close>\<close>
  i_projectShortName :: "string option"    \<comment> \<open>\<open>project?.shortName\<close>\<close>
  i_cfType :: "string option"
  i_cfState :: "string option"
  i_cfAssignee :: "string option"
  i_links :: "raw_link list"               \<comment> \<open>\<open>issue.links || []\<close>\<close>

record tracker =
  issueApi :: "string \<Rightarrow> string \<Rightarrow> api_error + raw_issue option"
  commentsApi :: "string \<Rightarrow> string \<Rightarrow> api_error + raw_comment list option"

text \<open>
  \<^verbatim>\<open>
  async function fetchIssue(baseUrl, issueId) {
    try { ... const response = await axios.get(...); return response.data; }
    catch (e) { console.log(...); return null; }
  }
  \<close>
\<close>

definition fetchIssue :: "tracker \<Rightarrow> string \<Rightarrow> string \<Rightarrow> raw_issue option" where
  "fetchIssue tr baseUrl issueId =
     (case issueApi tr baseUrl issueId of
        Inl e \<Rightarrow> None
      | Inr data \<Rightarrow> data)"

text \<open>
  \<^verbatim>\<open>
  return (response.data || [])
    .filter(function(c) { return !c.deleted; })
    .map(function(c) { return { id: c.id, text: c.text || '',
        author: c.author ? (c.author.fullName || c.author.login) : 'Unknown',
        createdDate: c.created, modifiedDate: c.updated }; });
  } catch (e) { ...; return []; }
  \<close>
\<close>

definition mkComment :: "raw_comment \<Rightarrow> comment" where
  "mkComment c =
     \<lparr> c_id = rc_id c,
       c_text = js_or (rc_text c) [],
       c_author =
         (case rc_author c of
            None \<Rightarrow> Some ''Unknown''
          | Some (fullName, login) \<Rightarrow> if truthy fullName then fullName else login),
       c_createdDate = rc_created c,
       c_modifiedDate = rc_updated c \<rparr>"

definition fetchComments :: "tracker \<Rightarrow> string \<Rightarrow> string \<Rightarrow> comment list" where
  "fetchComments tr baseUrl issueId =
     (case commentsApi tr baseUrl issueId of
        Inl e \<Rightarrow> []
      | Inr data \<Rightarrow>
          map mkComment
            (filter (\<lambda>c. \<not> rc_deleted c) (case data of None \<Rightarrow> [] | Some cs \<Rightarrow> cs)))"

section \<open>YouTrack: parseIssueData\<close>

record linkref =
  lr_id :: string
  lr_internalId :: string
  lr_title :: string
  lr_state :: string
  lr_assignee :: string
  lr_linkType :: string
  lr_direction :: string
  lr_dependencyType :: "string option"
  lr_relationType :: "string option"
  lr_sourceIssue :: "string option"

record ticket =
  t_id :: string
  t_internalId :: string
  t_type :: string
  t_title :: string
  t_state :: string
  t_assignee :: string
  t_projectKey :: string
  t_comments :: "comment list"
  t_children :: "linkref list"
  t_parents :: "linkref list"
  t_relatedItems :: "linkref list"
  t_dependencies :: "linkref list"
  t_linkTypeToParent :: "string option"

text \<open>The four buckets that the loop over \<open>issue.links\<close> fills.\<close>

record buckets =
  b_children :: "linkref list"
  b_parents :: "linkref list"
  b_relatedItems :: "linkref list"
  b_dependencies :: "linkref list"

definition linkItem :: "raw_link \<Rightarrow> raw_link_issue \<Rightarrow> linkref" where
  "linkItem link linkedIssue =
     \<lparr> lr_id = li_idReadable linkedIssue,
       lr_internalId = li_id linkedIssue,
       lr_title = li_summary linkedIssue,
       lr_state = js_or (li_stateName linkedIssue) ''Unknown'',
       lr_assignee = js_or (li_assigneeFullName linkedIssue) ''Unassigned'',
       lr_linkType = js_or (l_typeName link) ''Related'',
       lr_direction = l_direction link,
       lr_dependencyType = None,
       lr_relationType = None,
       lr_sourceIssue = None \<rparr>"

definition classify :: "raw_link \<Rightarrow> buckets \<Rightarrow> raw_link_issue \<Rightarrow> buckets" where
  "classify link b linkedIssue =
     (let item = linkItem link linkedIssue;
          linkType = js_or (l_typeName link) ''Related'';
          direction = l_direction link
      in if linkType = ''Subtask'' then
           (if direction = ''OUTWARD''
            then b\<lparr>b_children := b_children b @ [item]\<rparr>
            else b\<lparr>b_parents := b_parents b @ [item]\<rparr>)
         else if linkType = ''Depend'' then
           b\<lparr>b_dependencies := b_dependencies b @
               [item\<lparr>lr_dependencyType :=
                  Some (if direction = ''OUTWARD'' then ''Depends on'' else ''Required for'')\<rparr>]\<rparr>
         else
           b\<lparr>b_relatedItems := b_relatedItems b @
               [item\<lparr>lr_relationType :=
                  Some (if direction = ''OUTWARD''
                        then js_or (l_sourceToTarget link) linkType
                        else js_or (l_targetToSource link) linkType)\<rparr>]\<rparr>)"

definition parseLinks :: "raw_link list \<Rightarrow> buckets" where
  "parseLinks links =
     foldl (\<lambda>b link. foldl (classify link) b (l_issues link))
       \<lparr> b_children = [], b_parents = [], b_relatedItems = [], b_dependencies = [] \<rparr>
       links"

definition parseIssue :: "raw_issue \<Rightarrow> comment list \<Rightarrow> ticket" where
  "parseIssue issue comments =
     (let b = parseLinks (i_links issue)
      in \<lparr> t_id = i_idReadable issue,
           t_internalId = i_id issue,
           t_type = js_or (i_typeName issue) (js_or (i_cfType issue) ''Issue''),
           t_title = i_summary issue,
           t_state = js_or (i_stateName issue) (js_or (i_cfState issue) ''Unknown''),
           t_assignee =
             js_or (i_assigneeFullName issue) (js_or (i_cfAssignee issue) ''Unassigned''),
           t_projectKey = js_or (i_projectShortName issue) [],
           t_comments = comments,
           t_children = b_children b,
           t_parents = b_parents b,
           t_relatedItems = b_relatedItems b,
           t_dependencies = b_dependencies b,
           t_linkTypeToParent = None \<rparr>)"

text \<open>\<^verbatim>\<open>function parseIssueData(issue, comments) { if (!issue) return null; ... }\<close>\<close>

definition parseIssueData :: "raw_issue option \<Rightarrow> comment list \<Rightarrow> ticket option" where
  "parseIssueData issue comments =
     (case issue of None \<Rightarrow> None | Some i \<Rightarrow> Some (parseIssue i comments))"

section \<open>YouTrack: crawlYouTrack\<close>

record commentEntry =
  ce_issueId :: string
  ce_issueTitle :: string
  ce_comments :: "comment list"

record stats =
  totalChildren :: nat
  totalRelated :: nat
  totalDependencies :: nat
  totalComments :: nat
  childrenByState :: "string \<rightharpoonup> nat"
  childrenByType :: "string \<rightharpoonup> nat"
  childrenByAssignee :: "string \<rightharpoonup> nat"

record graph =
  g_baseUrl :: string
  g_projectKey :: string
  g_parent :: ticket
  g_children :: "ticket list"
  g_relatedItems :: "linkref list"
  g_dependencies :: "linkref list"
  g_allComments :: "commentEntry list"
  g_stats :: stats

text \<open>\<^verbatim>\<open>throw new Error('Could not fetch issue ' + issueId)\<close>\<close>

datatype crawl_error = CouldNotFetchIssue string

text \<open>
  \<^verbatim>\<open>
  const allLinkedItems = [
    ...parent.children.map(function(c) { return Object.assign({}, c, { linkType: 'Subtask' }); }),
    ...parent.relatedItems.map(function(r) {
         return Object.assign({}, r, { linkType: r.relationType || 'Related' }); })
  ];
  \<close>
\<close>

definition allLinkedItems :: "ticket \<Rightarrow> linkref list" where
  "allLinkedItems parent =
     map (\<lambda>c. c\<lparr>lr_linkType := ''Subtask''\<rparr>) (t_children parent) @
     map (\<lambda>r. r\<lparr>lr_linkType := js_or (lr_relationType r) ''Related''\<rparr>) (t_relatedItems parent)"

text \<open>
  \<^verbatim>\<open>
  const uniqueLinkedItems = [];
  const seenIds = new Set();
  allLinkedItems.forEach(function(item) {
    if (!seenIds.has(item.id)) { seenIds.add(item.id); uniqueLinkedItems.push(item); }
  });
  \<close>
  The set \<open>seenIds\<close> is the first argument.
\<close>

fun dedupById :: "string set \<Rightarrow> linkref list \<Rightarrow> linkref list" where
  "dedupById seenIds [] = []"
| "dedupById seenIds (item # items) =
     (if lr_id item \<in> seenIds then dedupById seenIds items
      else item # dedupById (insert (lr_id item) seenIds) items)"

definition uniqueLinkedItems :: "ticket \<Rightarrow> linkref list" where
  "uniqueLinkedItems parent = dedupById {} (allLinkedItems parent)"

text \<open>
  \<^verbatim>\<open>
  linked.dependencies.forEach(function(dep) {
    if (!result.dependencies.find(function(d) { return d.id === dep.id; })
        && dep.id !== parent.id) {
      dep.sourceIssue = linked.id;
      result.dependencies.push(dep);
    }
  });
  \<close>
  \<open>mergeDeps\<close> returns the new \<open>result.dependencies\<close> and, because \<open>dep\<close> is an
  element of \<open>linked.dependencies\<close> that is updated in place, the new
  \<open>linked.dependencies\<close>.
\<close>

fun mergeDeps ::
  "string \<Rightarrow> string \<Rightarrow> linkref list \<Rightarrow> linkref list \<Rightarrow> linkref list \<times> linkref list" where
  "mergeDeps parentId linkedId deps [] = (deps, [])"
| "mergeDeps parentId linkedId deps (dep # rest) =
     (if lr_id dep \<notin> set (map lr_id deps) \<and> lr_id dep \<noteq> parentId then
        (let dep' = dep\<lparr>lr_sourceIssue := Some linkedId\<rparr>;
             (deps', rest') = mergeDeps parentId linkedId (deps @ [dep']) rest
         in (deps', dep' # rest'))
      else
        (let (deps', rest') = mergeDeps parentId linkedId deps rest
         in (deps', dep # rest')))"

text \<open>The part of \<open>result\<close> that the loop over the linked items changes.\<close>

record crawl_state =
  s_children :: "ticket list"
  s_dependencies :: "linkref list"
  s_allComments :: "commentEntry list"

definition commentEntries :: "ticket \<Rightarrow> commentEntry list" where
  "commentEntries t =
     (if t_comments t \<noteq> []
      then [\<lparr> ce_issueId = t_id t, ce_issueTitle = t_title t, ce_comments = t_comments t \<rparr>]
      else [])"

text \<open>
  One turn of \<^verbatim>\<open>for (let i = 0; i < uniqueLinkedItems.length; i++)\<close>. A linked
  issue whose fetch gave \<open>null\<close> changes nothing; \<open>parseIssueData\<close> of a fetched
  issue is never \<open>null\<close>.
\<close>

definition crawlStep :: "tracker \<Rightarrow> string \<Rightarrow> string \<Rightarrow> crawl_state \<Rightarrow> linkref \<Rightarrow> crawl_state" where
  "crawlStep tr baseUrl parentId st linkedRef =
     (case fetchIssue tr baseUrl (lr_id linkedRef) of
        None \<Rightarrow> st
      | Some linkedIssue \<Rightarrow>
          (let linkedComments = fetchComments tr baseUrl (lr_id linkedRef);
               linked = (parseIssue linkedIssue linkedComments)
                          \<lparr>t_linkTypeToParent := Some (lr_linkType linkedRef)\<rparr>;
               (deps', ldeps') =
                  mergeDeps parentId (t_id linked) (s_dependencies st) (t_dependencies linked)
           in \<lparr> s_children = s_children st @ [linked\<lparr>t_dependencies := ldeps'\<rparr>],
                s_dependencies = deps',
                s_allComments = s_allComments st @ commentEntries linked \<rparr>))"

definition crawlLinked :: "tracker \<Rightarrow> string \<Rightarrow> string \<Rightarrow> crawl_state \<Rightarrow> linkref list \<Rightarrow> crawl_state" where
  "crawlLinked tr baseUrl parentId st refs = foldl (crawlStep tr baseUrl parentId) st refs"

text \<open>
  \<^verbatim>\<open>m[k] = (m[k] || 0) + 1\<close> for each child, with \<open>k\<close> the child's state, type or
  assignee (\<open>c.state || 'Unknown'\<close> and so on).
\<close>

definition bump :: "(string \<rightharpoonup> nat) \<Rightarrow> string \<Rightarrow> (string \<rightharpoonup> nat)" where
  "bump m k = m(k \<mapsto> (case m k of None \<Rightarrow> 0 | Some n \<Rightarrow> n) + 1)"

definition countBy :: "(ticket \<Rightarrow> string) \<Rightarrow> ticket list \<Rightarrow> (string \<rightharpoonup> nat)" where
  "countBy key cs = foldl (\<lambda>m c. bump m (key c)) Map.empty cs"

definition buildStats :: "ticket list \<Rightarrow> linkref list \<Rightarrow> linkref list \<Rightarrow> commentEntry list \<Rightarrow> stats" where
  "buildStats children relatedItems dependencies allComments =
     \<lparr> totalChildren = length children,
       totalRelated = length relatedItems,
       totalDependencies = length dependencies,
       totalComments = foldl (\<lambda>sum ic. sum + length (ce_comments ic)) 0 allComments,
       childrenByState = countBy (\<lambda>c. js_or (Some (t_state c)) ''Unknown'') children,
       childrenByType = countBy (\<lambda>c. js_or (Some (t_type c)) ''Issue'') children,
       childrenByAssignee = countBy (\<lambda>c. js_or (Some (t_assignee c)) ''Unassigned'') children \<rparr>"

text \<open>
  The crawl. \<open>result.dependencies\<close> starts as \<open>parent.dependencies\<close>, the very same
  array, so what the loop pushes is also seen through \<open>result.parent.dependencies\<close>;
  \<open>result.relatedItems\<close> is set to \<open>parent.relatedItems\<close> before the loop and to
  \<open>[]\<close> after it, and the statistics are computed from the fields as they are then.
\<close>

definition crawlYouTrack :: "tracker \<Rightarrow> string \<Rightarrow> string \<Rightarrow> crawl_error + graph" where
  "crawlYouTrack tr baseUrl issueId =
     (case fetchIssue tr baseUrl issueId of
        None \<Rightarrow> Inl (CouldNotFetchIssue issueId)
      | Some mainIssue \<Rightarrow>
          (let mainComments = fetchComments tr baseUrl issueId;
               parent = parseIssue mainIssue mainComments;
               st0 = \<lparr> s_children = [],
                       s_dependencies = t_dependencies parent,
                       s_allComments = commentEntries parent \<rparr>;
               st = crawlLinked tr baseUrl (t_id parent) st0 (uniqueLinkedItems parent);
               relatedItems = []
           in Inr \<lparr> g_baseUrl = baseUrl,
                    g_projectKey = t_projectKey parent,
                    g_parent = parent\<lparr>t_dependencies := s_dependencies st\<rparr>,
                    g_children = s_children st,
                    g_relatedItems = relatedItems,
                    g_dependencies = s_dependencies st,
                    g_allComments = s_allComments st,
                    g_stats = buildStats (s_children st) relatedItems (s_dependencies st)
                                (s_allComments st) \<rparr>))"

section \<open>ADO variant: fetchComments, fetchWorkItem, crawlAdo\<close>

text \<open>
  The ADO server is a separate program with the same shape. Its \<open>fetchComments\<close>
  maps every comment of the response; it reads no deletion flag. The field
  \<open>ac_isDeleted\<close> is the deletion flag that the source carries for a comment.
  \<^verbatim>\<open>
  return (response.data.comments || []).map(function(c) {
    return { id: c.id, text: c.text,
      author: c.createdBy ? c.createdBy.displayName : "Unknown",
      createdDate: c.createdDate, modifiedDate: c.modifiedDate };
  });
  } catch (e) { ...; return []; }
  \<close>
\<close>

record ado_raw_comment =
  ac_id :: nat
  ac_text :: "string option"
  ac_createdBy :: "string option option"   \<comment> \<open>\<open>createdBy\<close>, and its \<open>displayName\<close>\<close>
  ac_createdDate :: "string option"
  ac_modifiedDate :: "string option"
  ac_isDeleted :: bool

record ado_comment =
  a_id :: nat
  a_text :: "string option"
  a_author :: "string option"
  a_createdDate :: "string option"
  a_modifiedDate :: "string option"

record raw_relation =
  r_rel :: string
  r_url :: string

text \<open>
  The work item payload: \<open>item.id\<close>, the entries of \<open>item.fields\<close> that the
  crawl reads, and \<open>item.relations || []\<close>. The other fields of the result of
  \<open>fetchWorkItem\<close> (description, area, iteration, estimates, dates, tags) are copied
  from the payload and left out here.
\<close>

record raw_workitem =
  w_id :: nat
  w_type :: "string option"
  w_title :: "string option"
  w_state :: "string option"
  w_assignedTo :: "string option option"   \<comment> \<open>\<open>System.AssignedTo\<close>, and its \<open>displayName\<close>\<close>
  w_relations :: "raw_relation list"

record workitem =
  wi_id :: nat
  wi_type :: "string option"
  wi_title :: "string option"
  wi_state :: "string option"
  wi_assignee :: "string option"
  wi_relations :: "raw_relation list"
  wi_comments :: "ado_comment list"
  wi_relationToParent :: "string list option"

text \<open>
  A payload \<open>None\<close> is a response without the object that the code reads
  (\<open>response.data.comments\<close>, \<open>item.fields\<close>): the \<open>TypeError\<close> is caught by the
  same \<open>catch\<close> as a transport error.
\<close>

record ado =
  workItemApi :: "string \<Rightarrow> string \<Rightarrow> api_error + raw_workitem option"
  adoCommentsApi :: "string \<Rightarrow> string \<Rightarrow> api_error + ado_raw_comment list option"

definition mkCommentAdo :: "ado_raw_comment \<Rightarrow> ado_comment" where
  "mkCommentAdo c =
     \<lparr> a_id = ac_id c,
       a_text = ac_text c,
       a_author = (case ac_createdBy c of None \<Rightarrow> Some ''Unknown'' | Some displayName \<Rightarrow> displayName),
       a_createdDate = ac_createdDate c,
       a_modifiedDate = ac_modifiedDate c \<rparr>"

definition fetchCommentsAdo :: "ado \<Rightarrow> string \<Rightarrow> string \<Rightarrow> ado_comment list" where
  "fetchCommentsAdo api base workitemId =
     (case adoCommentsApi api base workitemId of
        Inl e \<Rightarrow> []
      | Inr data \<Rightarrow> map mkCommentAdo (case data of None \<Rightarrow> [] | Some cs \<Rightarrow> cs))"

definition fetchWorkItem :: "ado \<Rightarrow> string \<Rightarrow> string \<Rightarrow> bool \<Rightarrow> workitem option" where
  "fetchWorkItem api base ident includeComments =
     (case workItemApi api base ident of
        Inl e \<Rightarrow> None
      | Inr None \<Rightarrow> None
      | Inr (Some item) \<Rightarrow>
          Some \<lparr> wi_id = w_id item,
                 wi_type = w_type item,
                 wi_title = w_title item,
                 wi_state = w_state item,
                 wi_assignee =
                   (case w_assignedTo item of None \<Rightarrow> Some ''Unassigned''
                    | Some displayName \<Rightarrow> displayName),
                 wi_relations = w_relations item,
                 wi_comments = (if includeComments then fetchCommentsAdo api base ident else []),
                 wi_relationToParent = None \<rparr>)"

definition RELATION_TYPES :: "(string \<times> string) list" where
  "RELATION_TYPES =
     [(''System.LinkTypes.Hierarchy-Forward'', ''Child''),
      (''System.LinkTypes.Hierarchy-Reverse'', ''Parent''),
      (''System.LinkTypes.Related'', ''Related''),
      (''System.LinkTypes.Dependency-Forward'', ''Successor''),
      (''System.LinkTypes.Dependency-Reverse'', ''Predecessor''),
      (''Microsoft.VSTS.Common.Affects-Forward'', ''Affects''),
      (''Microsoft.VSTS.Common.Affects-Reverse'', ''Affected By''),
      (''System.LinkTypes.Duplicate-Forward'', ''Duplicate Of''),
      (''System.LinkTypes.Duplicate-Reverse'', ''Duplicated By''),
      (''Microsoft.VSTS.Common.TestedBy-Forward'', ''Tested By''),
      (''Microsoft.VSTS.Common.TestedBy-Reverse'', ''Tests'')]"

text \<open>\<open>s.includes(sub)\<close> and \<open>url.split("/").pop()\<close>.\<close>

fun startsWith :: "string \<Rightarrow> string \<Rightarrow> bool" where
  "startsWith s [] = True"
| "startsWith [] (c # sub) = False"
| "startsWith (d # s) (c # sub) = (d = c \<and> startsWith s sub)"

fun js_includes :: "string \<Rightarrow> string \<Rightarrow> bool" where
  "js_includes [] sub = (sub = [])"
| "js_includes (c # s) sub = (startsWith (c # s) sub \<or> js_includes s sub)"

definition lastSegment :: "string \<Rightarrow> string" where
  "lastSegment url = rev (takeWhile (\<lambda>c. c \<noteq> CHR ''/'') (rev url))"

record rel_state =
  childIds :: "string list"
  relatedIds :: "string list"
  relationsMap :: "string \<rightharpoonup> string list"

text \<open>
  One turn of \<^verbatim>\<open>(parent.relations || []).forEach(function(r) {...})\<close>. The
  \<open>attributes\<close> kept in \<open>relationsMap\<close> are not read afterwards and are left out.
  Plain objects used as dictionaries are modelled as maps: the keys are taken not to be
  names of properties of \<open>Object.prototype\<close>.
\<close>

definition relStep :: "rel_state \<Rightarrow> raw_relation \<Rightarrow> rel_state" where
  "relStep st r =
     (let relType = r_rel r;
          targetId = lastSegment (r_url r);
          friendlyType = (case map_of RELATION_TYPES relType of Some f \<Rightarrow> f | None \<Rightarrow> relType);
          types = (case relationsMap st targetId of None \<Rightarrow> [] | Some ts \<Rightarrow> ts);
          st' = st\<lparr>relationsMap := (relationsMap st)(targetId \<mapsto> types @ [friendlyType])\<rparr>
      in if relType = ''System.LinkTypes.Hierarchy-Forward'' then
           st'\<lparr>childIds := childIds st' @ [targetId]\<rparr>
         else if relType \<noteq> ''System.LinkTypes.Hierarchy-Reverse''
                 \<and> \<not> js_includes relType ''Hyperlink''
                 \<and> \<not> js_includes relType ''AttachedFile''
                 \<and> \<not> js_includes relType ''ArtifactLink'' then
           st'\<lparr>relatedIds := relatedIds st' @ [targetId]\<rparr>
         else st')"

definition processRelations :: "raw_relation list \<Rightarrow> rel_state" where
  "processRelations rels =
     foldl relStep \<lparr> childIds = [], relatedIds = [], relationsMap = Map.empty \<rparr> rels"

text \<open>
  \<^verbatim>\<open>
  const uniqueRelatedIds = [...new Set(relatedIds)].filter(function(rid) {
    return !childIds.includes(rid);
  });
  \<close>
\<close>

definition uniqueRelatedIds :: "rel_state \<Rightarrow> string list" where
  "uniqueRelatedIds st = filter (\<lambda>rid. rid \<notin> set (childIds st)) (setOrder {} (relatedIds st))"

record adoCommentEntry =
  ae_workItemId :: nat
  ae_workItemTitle :: "string option"
  ae_comments :: "ado_comment list"

record ado_stats =
  as_totalChildren :: nat
  as_totalRelated :: nat
  as_totalComments :: nat
  as_childrenByState :: "string \<rightharpoonup> nat"
  as_relatedByType :: "string \<rightharpoonup> nat"

record ado_graph =
  ag_org :: string
  ag_project :: string
  ag_parent :: workitem
  ag_children :: "workitem list"
  ag_relatedItems :: "workitem list"
  ag_allComments :: "adoCommentEntry list"
  ag_stats :: ado_stats

datatype ado_error = CouldNotFetchWorkItem string

definition adoCommentEntries :: "workitem \<Rightarrow> adoCommentEntry list" where
  "adoCommentEntries w =
     (if wi_comments w \<noteq> []
      then [\<lparr> ae_workItemId = wi_id w, ae_workItemTitle = wi_title w, ae_comments = wi_comments w \<rparr>]
      else [])"

definition fetchChild ::
  "ado \<Rightarrow> string \<Rightarrow> workitem list \<times> adoCommentEntry list \<Rightarrow> string
     \<Rightarrow> workitem list \<times> adoCommentEntry list" where
  "fetchChild api base st cid =
     (case fetchWorkItem api base cid True of
        None \<Rightarrow> st
      | Some child \<Rightarrow> (fst st @ [child], snd st @ adoCommentEntries child))"

definition fetchRelated ::
  "ado \<Rightarrow> string \<Rightarrow> (string \<rightharpoonup> string list) \<Rightarrow> workitem list \<Rightarrow> string \<Rightarrow> workitem list" where
  "fetchRelated api base relMap relatedItems rid =
     (case fetchWorkItem api base rid False of
        None \<Rightarrow> relatedItems
      | Some related \<Rightarrow>
          relatedItems @
            [related\<lparr>wi_relationToParent :=
               Some (case relMap rid of Some ts \<Rightarrow> ts | None \<Rightarrow> [''Related''])\<rparr>])"

definition adoStats :: "workitem list \<Rightarrow> workitem list \<Rightarrow> adoCommentEntry list \<Rightarrow> ado_stats" where
  "adoStats children relatedItems allComments =
     \<lparr> as_totalChildren = length children,
       as_totalRelated = length relatedItems,
       as_totalComments = foldl (\<lambda>sum wc. sum + length (ae_comments wc)) 0 allComments,
       as_childrenByState = foldl (\<lambda>m c. bump m (js_or (wi_state c) ''Unknown'')) Map.empty children,
       as_relatedByType =
         foldl (\<lambda>m r. foldl bump m (case wi_relationToParent r of None \<Rightarrow> [''Related''] | Some ts \<Rightarrow> ts))
           Map.empty relatedItems \<rparr>"

definition adoBase :: "string \<Rightarrow> string \<Rightarrow> string" where
  "adoBase org project = ''https://dev.azure.com/'' @ org @ ''/'' @ project @ ''/_apis/wit''"

definition crawlAdo :: "ado \<Rightarrow> string \<Rightarrow> string \<Rightarrow> string \<Rightarrow> ado_error + ado_graph" where
  "crawlAdo api org project ident =
     (let base = adoBase org project
      in case fetchWorkItem api base ident True of
           None \<Rightarrow> Inl (CouldNotFetchWorkItem ident)
         | Some parent \<Rightarrow>
             (let rs = processRelations (wi_relations parent);
                  (children, allComments) =
                     foldl (fetchChild api base) ([], adoCommentEntries parent) (childIds rs);
                  relatedItems =
                     foldl (fetchRelated api base (relationsMap rs)) [] (uniqueRelatedIds rs)
              in Inr \<lparr> ag_org = org,
                       ag_project = project,
                       ag_parent = parent,
                       ag_children = children,
                       ag_relatedItems = relatedItems,
                       ag_allComments = allComments,
                       ag_stats = adoStats children relatedItems allComments \<rparr>))"

section \<open>Sample inputs and auxiliary notions for the statements\<close>

text \<open>
  The id under which the issue fetched for a linked item presents itself, when the fetch
  succeeds.
\<close>

definition fetchedId :: "tracker \<Rightarrow> string \<Rightarrow> linkref \<Rightarrow> string option" where
  "fetchedId tr baseUrl r = map_option i_idReadable (fetchIssue tr baseUrl (lr_id r))"

text \<open>
  A sample tracker. Issue \<open>P-1\<close> has the subtasks \<open>S-1\<close> and \<open>S-2\<close>, is related to
  \<open>R-1\<close> and (again) \<open>S-1\<close>, and depends on \<open>D-1\<close>; \<open>S-2\<close> cannot be fetched;
  \<open>S-1\<close> and \<open>R-1\<close> have dependencies of their own, among them \<open>P-1\<close>. Issue
  \<open>Q-1\<close> depends on \<open>D-1\<close> and is required for \<open>D-1\<close>. One comment of
  \<open>P-1\<close> is deleted.
\<close>

definition sampleLinkIssue :: "string \<Rightarrow> raw_link_issue" where
  "sampleLinkIssue i =
     \<lparr> li_idReadable = i, li_id = ''0-'' @ i, li_summary = ''Summary of '' @ i,
       li_stateName = Some ''Open'', li_assigneeFullName = None \<rparr>"

definition sampleLink :: "string \<Rightarrow> string \<Rightarrow> string list \<Rightarrow> raw_link" where
  "sampleLink typeName direction ids =
     \<lparr> l_typeName = Some typeName, l_sourceToTarget = None, l_targetToSource = None,
       l_direction = direction, l_issues = map sampleLinkIssue ids \<rparr>"

definition sampleIssue :: "string \<Rightarrow> raw_link list \<Rightarrow> raw_issue" where
  "sampleIssue i links =
     \<lparr> i_idReadable = i, i_id = ''0-'' @ i, i_summary = ''Summary of '' @ i,
       i_typeName = Some ''Task'', i_stateName = Some ''Open'', i_assigneeFullName = None,
       i_projectShortName = Some ''P'', i_cfType = None, i_cfState = None, i_cfAssignee = None,
       i_links = links \<rparr>"

definition sampleComment :: "string \<Rightarrow> bool \<Rightarrow> raw_comment" where
  "sampleComment i deleted =
     \<lparr> rc_id = i, rc_text = Some ''text'', rc_author = None, rc_created = None,
       rc_updated = None, rc_deleted = deleted \<rparr>"

definition sampleTracker :: tracker where
  "sampleTracker =
     \<lparr> issueApi = (\<lambda>baseUrl i.
         if i = ''P-1'' then
           Inr (Some (sampleIssue ''P-1''
             [sampleLink ''Subtask'' ''OUTWARD'' [''S-1'', ''S-2''],
              sampleLink ''Relates'' ''BOTH'' [''R-1'', ''S-1''],
              sampleLink ''Depend'' ''OUTWARD'' [''D-1'']]))
         else if i = ''S-1'' then
           Inr (Some (sampleIssue ''S-1''
             [sampleLink ''Depend'' ''INWARD'' [''P-1''],
              sampleLink ''Depend'' ''OUTWARD'' [''D-1'', ''D-2'']]))
         else if i = ''R-1'' then
           Inr (Some (sampleIssue ''R-1'' [sampleLink ''Depend'' ''OUTWARD'' [''D-2'', ''D-3'']]))
         else if i = ''Q-1'' then
           Inr (Some (sampleIssue ''Q-1''
             [sampleLink ''Depend'' ''OUTWARD'' [''D-1''],
              sampleLink ''Depend'' ''INWARD'' [''D-1'']]))
         else Inl (ApiError ''Not Found'')),
       commentsApi = (\<lambda>baseUrl i.
         if i = ''P-1'' then Inr (Some [sampleComment ''c1'' False, sampleComment ''c2'' True])
         else if i = ''R-1'' then Inr (Some [sampleComment ''c3'' False])
         else Inl (ApiError ''Not Found'')) \<rparr>"


text \<open>The id of the work item fetched for a target id, when the fetch succeeds.\<close>

definition fetchedWid :: "ado \<Rightarrow> string \<Rightarrow> bool \<Rightarrow> string \<Rightarrow> nat option" where
  "fetchedWid api base includeComments ident =
     map_option wi_id (fetchWorkItem api base ident includeComments)"

text \<open>
  A sample ADO project: work item 7 has the child 8, is related to 9 twice and to 8,
  and carries a comment that the source marks as deleted.
\<close>

definition sampleAdoComment :: ado_raw_comment where
  "sampleAdoComment =
     \<lparr> ac_id = 1, ac_text = Some ''obsolete'', ac_createdBy = None, ac_createdDate = None,
       ac_modifiedDate = None, ac_isDeleted = True \<rparr>"

definition sampleWorkItem :: "nat \<Rightarrow> raw_relation list \<Rightarrow> raw_workitem" where
  "sampleWorkItem n rels =
     \<lparr> w_id = n, w_type = Some ''Task'', w_title = Some ''Title'', w_state = Some ''Active'',
       w_assignedTo = None, w_relations = rels \<rparr>"

definition sampleAdo :: ado where
  "sampleAdo =
     \<lparr> workItemApi = (\<lambda>base i.
         if i = ''7'' then
           Inr (Some (sampleWorkItem 7
             [\<lparr> r_rel = ''System.LinkTypes.Hierarchy-Forward'', r_url = ''https://ado/workItems/8'' \<rparr>,
              \<lparr> r_rel = ''System.LinkTypes.Related'', r_url = ''https://ado/workItems/9'' \<rparr>,
              \<lparr> r_rel = ''System.LinkTypes.Dependency-Forward'', r_url = ''https://ado/workItems/9'' \<rparr>,
              \<lparr> r_rel = ''System.LinkTypes.Related'', r_url = ''https://ado/workItems/8'' \<rparr>]))
         else if i = ''8'' then Inr (Some (sampleWorkItem 8 []))
         else if i = ''9'' then Inr (Some (sampleWorkItem 9 []))
         else Inl (ApiError ''Not Found'')),
       adoCommentsApi = (\<lambda>base i.
         if i = ''7'' then Inr (Some [sampleAdoComment]) else Inr (Some [])) \<rparr>"

section \<open>Properties of the history store\<close>

lemma unshift_pop_take:
  "length h \<le> MAX_HISTORY \<Longrightarrow> unshift_pop x h = take MAX_HISTORY (x # h)"
  by (cases "length h = MAX_HISTORY")
     (auto simp: unshift_pop_def Let_def MAX_HISTORY_def butlast_conv_take)

lemma addAll_take:
  "length h \<le> MAX_HISTORY \<Longrightarrow>
   addAll h is = take MAX_HISTORY (rev (map historyItemYouTrack is) @ h)"
proof (induction "is" arbitrary: h)
  case Nil
  then show ?case by simp
next
  case (Cons i "is")
  have len: "length (unshift_pop (historyItemYouTrack i) h) \<le> MAX_HISTORY"
    using Cons.prems by (simp add: unshift_pop_take)
  have "addAll h (i # is) = addAll (unshift_pop (historyItemYouTrack i) h) is"
    by (simp add: addToHistory_def Let_def)
  also have "\<dots> = take MAX_HISTORY
      (rev (map historyItemYouTrack is) @ take MAX_HISTORY (historyItemYouTrack i # h))"
    using Cons.IH [OF len] Cons.prems by (simp add: unshift_pop_take)
  also have "\<dots> = take MAX_HISTORY (rev (map historyItemYouTrack (i # is)) @ h)"
    by (simp add: take_add min_def)
  finally show ?case .
qed

lemma addAllAdo_take:
  "length h \<le> MAX_HISTORY \<Longrightarrow>
   addAllAdo h is = take MAX_HISTORY (rev (map historyItemAdo is) @ h)"
proof (induction "is" arbitrary: h)
  case Nil
  then show ?case by simp
next
  case (Cons i "is")
  have len: "length (unshift_pop (historyItemAdo i) h) \<le> MAX_HISTORY"
    using Cons.prems by (simp add: unshift_pop_take)
  have "addAllAdo h (i # is) = addAllAdo (unshift_pop (historyItemAdo i) h) is"
    by (simp add: addToHistoryAdo_def Let_def)
  also have "\<dots> = take MAX_HISTORY
      (rev (map historyItemAdo is) @ take MAX_HISTORY (historyItemAdo i # h))"
    using Cons.IH [OF len] Cons.prems by (simp add: unshift_pop_take)
  also have "\<dots> = take MAX_HISTORY (rev (map historyItemAdo (i # is)) @ h)"
    by (simp add: take_add min_def)
  finally show ?case .
qed

text \<open>
  C8. Starting from the empty history, after any sequence of insertions the list is the
  most-recent-first list of the inserted items cut off after \<open>MAX_HISTORY = 50\<close>
  entries, so its length never exceeds 50; and an insertion into a full list (50 entries)
  keeps the new item in front and drops exactly the last, oldest, entry. Both hold for
  the YouTrack and for the ADO variant of \<open>addToHistory\<close>.
\<close>

theorem C8_history_bound:
  "length (addAll [] is) \<le> 50
   \<and> addAll [] is = take 50 (rev (map historyItemYouTrack is))
   \<and> (length (addAll [] is) = 50 \<longrightarrow>
        snd (addToHistory (addAll [] is) i) = historyItemYouTrack i # butlast (addAll [] is))
   \<and> length (addAllAdo [] is) \<le> 50
   \<and> addAllAdo [] is = take 50 (rev (map historyItemAdo is))
   \<and> (length (addAllAdo [] is) = 50 \<longrightarrow>
        snd (addToHistoryAdo (addAllAdo [] is) i) = historyItemAdo i # butlast (addAllAdo [] is))"
proof -
  have a: "addAll [] is = take 50 (rev (map historyItemYouTrack is))"
    using addAll_take [of "[]" "is"] by (simp add: MAX_HISTORY_def)
  have b: "addAllAdo [] is = take 50 (rev (map historyItemAdo is))"
    using addAllAdo_take [of "[]" "is"] by (simp add: MAX_HISTORY_def)
  have c: "length h = 50 \<Longrightarrow> unshift_pop x h = x # butlast h" for x :: 'x and h
    by (cases h) (auto simp: unshift_pop_def Let_def MAX_HISTORY_def)
  show ?thesis
    unfolding a b
    by (simp add: addToHistory_def addToHistoryAdo_def Let_def c)
qed

theorem C8_history_bound_witness:
  "length (addAll [] (map sampleInput [0..<50])) = 50
   \<and> snd (addToHistory (addAll [] (map sampleInput [0..<50])) (sampleInput 50))
       = historyItemYouTrack (sampleInput 50) # butlast (addAll [] (map sampleInput [0..<50]))"
proof -
  have len: "length (addAll [] (map sampleInput [0..<50])) = 50"
    using C8_history_bound [of "map sampleInput [0..<50]"] by simp
  show ?thesis
    using C8_history_bound [of "map sampleInput [0..<50]" "sampleInput 50"] len by blast
qed

end
